theory Spec2Isabelle
  imports Complex_Main "HOL-Library.AList"
begin

section \<open>Python values\<close>

text \<open>
  The exceptions of \<^verbatim>\<open>main.py\<close> that are instances of Python's \<^verbatim>\<open>Exception\<close>. The handlers
  of the program tell only \<^verbatim>\<open>tradeapi.rest.APIError\<close> from the rest; \<open>KeyError\<close>,
  \<open>ValueError\<close> and \<open>IndexError\<close> are the ones pandas, \<^verbatim>\<open>time.sleep\<close> and positional
  indexing raise, \<open>OtherError\<close> stands for every other subclass (transport and parsing
  errors of the broker client among them).
\<close>

datatype exc = APIError | KeyError | ValueError | IndexError | OtherError

text \<open>
  A float cell of a pandas column: \<open>None\<close> is NaN. A floating-point number is read as the
  real number it denotes; infinities are outside the model. The program itself adds no
  rounding to the cells: the only arithmetic on them is the rolling mean of pandas, which
  \<^verbatim>\<open>calculate\<close> takes as a parameter (see \<open>calculate_with\<close>).
\<close>

type_synonym cell = "real option"

text \<open>
  A pandas DataFrame: the row index (timestamps) and the columns in their order, by name.
  Each column of a well-formed frame has one cell per row, and no two columns share a name.
\<close>

record frame =
  index :: "int list"
  columns :: "(string \<times> cell list) list"

definition len :: "frame \<Rightarrow> nat" where
  "len d = length (index d)"

definition wf_frame :: "frame \<Rightarrow> bool" where
  "wf_frame d \<longleftrightarrow>
     distinct (map fst (columns d)) \<and> list_all (\<lambda>c. length (snd c) = len d) (columns d)"

text \<open>\<^verbatim>\<open>data[name]\<close>: the column, or \<open>KeyError\<close>.\<close>

definition getitem :: "frame \<Rightarrow> string \<Rightarrow> exc + cell list" where
  "getitem d name = (case map_of (columns d) name of None \<Rightarrow> Inl KeyError | Some col \<Rightarrow> Inr col)"

text \<open>
  \<^verbatim>\<open>data[name] = col\<close>: replaces the column of that name where it stands, or appends a new
  column after the others. The DataFrame object is mutated; the model returns the new frame.
\<close>

definition setitem :: "frame \<Rightarrow> string \<Rightarrow> cell list \<Rightarrow> frame" where
  "setitem d name col = d\<lparr>columns := AList.update name col (columns d)\<rparr>"

text \<open>\<^verbatim>\<open>col.iloc[i]\<close>: a negative position counts from the end; out of range is \<open>IndexError\<close>.\<close>

definition iloc :: "'a list \<Rightarrow> int \<Rightarrow> exc + 'a" where
  "iloc xs i =
     (if 0 \<le> i \<and> i < int (length xs) then Inr (xs ! nat i)
      else if i < 0 \<and> - i \<le> int (length xs) then Inr (xs ! nat (int (length xs) + i))
      else Inl IndexError)"

text \<open>\<^verbatim>\<open>a > b\<close> on floats: false as soon as one side is NaN.\<close>

definition py_gt :: "cell \<Rightarrow> cell \<Rightarrow> bool" where
  "py_gt a b = (case a of None \<Rightarrow> False | Some x \<Rightarrow> (case b of None \<Rightarrow> False | Some y \<Rightarrow> y < x))"

subsection \<open>Rolling means in exact arithmetic\<close>

text \<open>
  pandas computes \<^verbatim>\<open>rolling(window).mean()\<close> in binary64 with a running sum, so its values
  carry rounding that depends on the whole history of the column. \<open>rolling_mean\<close> below is
  the same column in exact arithmetic: it has the shape of the pandas result (length,
  NaN positions, refused windows) and its values where no rounding occurs, as on the
  small series of the scenarios. Properties that depend on the computed values are stated
  for every rolling mean of that shape, not for this one.

  The arithmetic mean of a window of cells: NaN when a cell of the window is NaN or the
  window is empty.
\<close>

definition window_mean :: "cell list \<Rightarrow> cell" where
  "window_mean ws =
     (case those ws of
        None \<Rightarrow> None
      | Some vs \<Rightarrow> if vs = [] then None else Some (sum_list vs / real (length vs)))"

text \<open>
  The trailing mean of window size \<open>w\<close> at row \<open>i\<close>: the mean of the \<open>w\<close> cells ending at
  row \<open>i\<close>, defined only where that window is fully populated (\<open>w\<close> rows exist up to \<open>i\<close>).
\<close>

definition trailing_mean :: "nat \<Rightarrow> cell list \<Rightarrow> nat \<Rightarrow> cell" where
  "trailing_mean w xs i =
     (if Suc i < w then None else window_mean (take w (drop (Suc i - w) xs)))"

text \<open>
  \<^verbatim>\<open>col.rolling(window=w).mean()\<close> with pandas' defaults (\<^verbatim>\<open>min_periods\<close> is the window
  size), in exact arithmetic: a column of the same length holding the trailing mean at
  each row. A negative window is refused with \<open>ValueError\<close>; a window of 0 gives NaN
  everywhere.
\<close>

definition rolling_mean :: "int \<Rightarrow> cell list \<Rightarrow> exc + cell list" where
  "rolling_mean w xs =
     (if w < 0 then Inl ValueError
      else Inr (map (trailing_mean (nat w) xs) [0..<length xs]))"

section \<open>Observable events\<close>

datatype level = INFO | WARNING | ERROR

text \<open>
  What the program does to the outside world, in order: the calls of the broker client,
  the sleeps, and the log lines (level, the fixed part of the message, the numbers
  formatted into it).
\<close>

datatype event =
    GetClock
  | GetCryptoBars string
  | GetLatestTrade string
  | SubmitOrder string real string string string
  | TimeSleep real
  | AsyncSleep int
  | Log level string "cell list"

section \<open>TradingSignals\<close>

text \<open>
  \<^verbatim>\<open>data['SMA_short'].iloc[i] > data['SMA_long'].iloc[i]\<close>, evaluated left to right.
\<close>

definition cross_at :: "frame \<Rightarrow> int \<Rightarrow> exc + bool" where
  "cross_at d i =
     (case getitem d ''SMA_short'' of Inl e \<Rightarrow> Inl e | Inr s \<Rightarrow>
     (case iloc s i of Inl e \<Rightarrow> Inl e | Inr a \<Rightarrow>
     (case getitem d ''SMA_long'' of Inl e \<Rightarrow> Inl e | Inr l \<Rightarrow>
     (case iloc l i of Inl e \<Rightarrow> Inl e | Inr b \<Rightarrow> Inr (py_gt a b)))))"

text \<open>The three log lines after a signal: current price, short and long average.\<close>

definition signal_report :: "frame \<Rightarrow> bool \<Rightarrow> exc + event list" where
  "signal_report d buy_signal =
     (case getitem d ''close'' of Inl e \<Rightarrow> Inl e | Inr c \<Rightarrow>
     (case iloc c (- 1) of Inl e \<Rightarrow> Inl e | Inr price \<Rightarrow>
     (case getitem d ''SMA_short'' of Inl e \<Rightarrow> Inl e | Inr s \<Rightarrow>
     (case iloc s (- 1) of Inl e \<Rightarrow> Inl e | Inr a \<Rightarrow>
     (case getitem d ''SMA_long'' of Inl e \<Rightarrow> Inl e | Inr l \<Rightarrow>
     (case iloc l (- 1) of Inl e \<Rightarrow> Inl e | Inr b \<Rightarrow>
        Inr [Log INFO (if buy_signal then ''Signal generated: BUY'' else ''Signal generated: SELL'') [],
             Log INFO ''Current price'' [price],
             Log INFO ''Short SMA'' [a],
             Log INFO ''Long SMA'' [b]]))))))"

text \<open>
  \<^verbatim>\<open>TradingSignals.calculate\<close> (lines 87-109), with the rolling mean of pandas as the
  parameter \<open>rolling\<close>: \<open>rolling w col\<close> stands for \<^verbatim>\<open>col.rolling(window=w).mean()\<close>. The
  result is the returned pair or the exception raised, the data frame as the call leaves
  it (the argument is mutated in place), and the lines logged.
\<close>

definition calculate_with ::
  "(int \<Rightarrow> cell list \<Rightarrow> exc + cell list) \<Rightarrow> int \<Rightarrow> int \<Rightarrow> frame option
     \<Rightarrow> (exc + bool \<times> bool) \<times> frame option \<times> event list" where
  "calculate_with rolling short_window long_window data =
     (case data of
        None \<Rightarrow>
          (Inr (False, False), None, [Log WARNING ''Insufficient data for signal calculation.'' []])
      | Some d \<Rightarrow>
          if int (len d) < long_window then
            (Inr (False, False), Some d, [Log WARNING ''Insufficient data for signal calculation.'' []])
          else
            (case getitem d ''close'' of Inl e \<Rightarrow> (Inl e, Some d, []) | Inr close1 \<Rightarrow>
            (case rolling short_window close1 of Inl e \<Rightarrow> (Inl e, Some d, []) | Inr sma_short \<Rightarrow>
            (let d1 = setitem d ''SMA_short'' sma_short in
            (case getitem d1 ''close'' of Inl e \<Rightarrow> (Inl e, Some d1, []) | Inr close2 \<Rightarrow>
            (case rolling long_window close2 of Inl e \<Rightarrow> (Inl e, Some d1, []) | Inr sma_long \<Rightarrow>
            (let d2 = setitem d1 ''SMA_long'' sma_long in
            (case cross_at d2 (- 1) of Inl e \<Rightarrow> (Inl e, Some d2, []) | Inr current_cross \<Rightarrow>
            (case cross_at d2 (- 2) of Inl e \<Rightarrow> (Inl e, Some d2, []) | Inr prev_cross \<Rightarrow>
            (let buy_signal = (\<not> prev_cross \<and> current_cross);
                 sell_signal = (prev_cross \<and> \<not> current_cross)
             in if buy_signal \<or> sell_signal then
                  (case signal_report d2 buy_signal of
                     Inl e \<Rightarrow> (Inl e, Some d2, [])
                   | Inr report \<Rightarrow> (Inr (buy_signal, sell_signal), Some d2, report))
                else (Inr (buy_signal, sell_signal), Some d2, [])))))))))))"

text \<open>\<^verbatim>\<open>calculate\<close> with the rolling mean in exact arithmetic.\<close>

definition calculate ::
  "int \<Rightarrow> int \<Rightarrow> frame option \<Rightarrow> (exc + bool \<times> bool) \<times> frame option \<times> event list" where
  "calculate short_window long_window data =
     calculate_with rolling_mean short_window long_window data"

section \<open>The broker and the program state\<close>

text \<open>
  What can surface in \<^verbatim>\<open>run\<close>: an \<^verbatim>\<open>Exception\<close>, \<^verbatim>\<open>KeyboardInterrupt\<close>, or another
  \<^verbatim>\<open>BaseException\<close> that no handler of the program names. Interrupts delivered while a
  per-symbol task runs are outside the model: the calls made by a task fail with
  instances of \<^verbatim>\<open>Exception\<close> only.
\<close>

datatype raised = Exc exc | KeyboardInterrupt | OtherBaseException

text \<open>
  The market clock as the broker reports it. Times are microseconds since the epoch.
\<close>

record clock =
  is_open :: bool
  next_open :: int
  timestamp :: int

type_synonym order = string

text \<open>
  The outside world is any deterministic script of answers: the answer to the \<open>n\<close>-th call
  of each operation of the broker client (\<open>Inl\<close> is the exception the call raises), and
  the \<open>n\<close>-th number drawn by \<^verbatim>\<open>random.random()\<close>.
\<close>

record world =
  get_clock_resp :: "nat \<Rightarrow> raised + clock"
  get_crypto_bars_resp :: "nat \<Rightarrow> string \<Rightarrow> exc + frame"
  get_latest_trade_resp :: "nat \<Rightarrow> string \<Rightarrow> exc + real"
  submit_order_resp :: "nat \<Rightarrow> string \<Rightarrow> exc + order"
  random_resp :: "nat \<Rightarrow> real"

text \<open>
  The state threaded through the program: how many calls of each kind were made, and the
  trace of events so far.
\<close>

record state =
  clock_calls :: nat
  bars_calls :: nat
  trade_calls :: nat
  order_calls :: nat
  random_calls :: nat
  trace :: "event list"

definition emit :: "event \<Rightarrow> state \<Rightarrow> state" where
  "emit e s = s\<lparr>trace := trace s @ [e]\<rparr>"

definition api_get_clock :: "world \<Rightarrow> state \<Rightarrow> (raised + clock) \<times> state" where
  "api_get_clock w s =
     (get_clock_resp w (clock_calls s), emit GetClock (s\<lparr>clock_calls := Suc (clock_calls s)\<rparr>))"

definition api_get_crypto_bars :: "world \<Rightarrow> string \<Rightarrow> state \<Rightarrow> (exc + frame) \<times> state" where
  "api_get_crypto_bars w symbol s =
     (get_crypto_bars_resp w (bars_calls s) symbol,
      emit (GetCryptoBars symbol) (s\<lparr>bars_calls := Suc (bars_calls s)\<rparr>))"

definition api_get_latest_trade :: "world \<Rightarrow> string \<Rightarrow> state \<Rightarrow> (exc + real) \<times> state" where
  "api_get_latest_trade w symbol s =
     (get_latest_trade_resp w (trade_calls s) symbol,
      emit (GetLatestTrade symbol) (s\<lparr>trade_calls := Suc (trade_calls s)\<rparr>))"

definition api_submit_order ::
  "world \<Rightarrow> string \<Rightarrow> real \<Rightarrow> string \<Rightarrow> string \<Rightarrow> string \<Rightarrow> state \<Rightarrow> (exc + order) \<times> state" where
  "api_submit_order w symbol qty side order_type time_in_force s =
     (submit_order_resp w (order_calls s) symbol,
      emit (SubmitOrder symbol qty side order_type time_in_force)
        (s\<lparr>order_calls := Suc (order_calls s)\<rparr>))"

text \<open>\<^verbatim>\<open>random.uniform(a, b)\<close> is \<^verbatim>\<open>a + (b - a) * random()\<close>.\<close>

definition random_uniform :: "world \<Rightarrow> real \<Rightarrow> real \<Rightarrow> state \<Rightarrow> real \<times> state" where
  "random_uniform w a b s =
     (a + (b - a) * random_resp w (random_calls s), s\<lparr>random_calls := Suc (random_calls s)\<rparr>)"

text \<open>\<^verbatim>\<open>time.sleep(secs)\<close> blocks; a negative length is refused with \<open>ValueError\<close>.\<close>

definition time_sleep :: "real \<Rightarrow> state \<Rightarrow> exc + state" where
  "time_sleep secs s = (if secs < 0 then Inl ValueError else Inr (emit (TimeSleep secs) s))"

section \<open>AlpacaAPI.get_historical_data\<close>

text \<open>\<^verbatim>\<open>bars.empty\<close>: no rows or no columns.\<close>

definition frame_empty :: "frame \<Rightarrow> bool" where
  "frame_empty d \<longleftrightarrow> index d = [] \<or> columns d = []"

definition drop_rows :: "nat \<Rightarrow> frame \<Rightarrow> frame" where
  "drop_rows k d = \<lparr>index = drop k (index d), columns = map (\<lambda>c. (fst c, drop k (snd c))) (columns d)\<rparr>"

text \<open>
  \<^verbatim>\<open>bars.tail(n)\<close>: the last \<open>n\<close> rows; no row for \<open>n = 0\<close>; all rows but the first \<open>-n\<close> for a
  negative \<open>n\<close>.
\<close>

definition tail :: "int \<Rightarrow> frame \<Rightarrow> frame" where
  "tail n d =
     (if n = 0 then drop_rows (len d) d
      else if 0 < n then drop_rows (len d - nat n) d
      else drop_rows (nat (- n)) d)"

text \<open>
  \<^verbatim>\<open>bars.sort_index()\<close>: the rows in ascending order of the index. Rows with equal index
  keep their order here; pandas leaves their order open, and a price series has no two
  rows with the same timestamp.
\<close>

definition sort_index :: "frame \<Rightarrow> frame" where
  "sort_index d =
     (let perm = map snd (sort_key fst (zip (index d) [0..<len d]))
      in \<lparr>index = map (\<lambda>i. index d ! i) perm,
          columns = map (\<lambda>c. (fst c, map (\<lambda>i. snd c ! i) perm)) (columns d)\<rparr>)"

text \<open>
  The \<^verbatim>\<open>while attempt < retries\<close> loop of \<^verbatim>\<open>get_historical_data\<close> (lines 54-78), from the
  loop head with the current value of \<^verbatim>\<open>attempt\<close>. The start and end of the requested
  range (lines 56-59) only parameterise the request and are left out. The result is the
  value returned (\<open>None\<close> for Python's \<^verbatim>\<open>None\<close>) or the exception that leaves the function:
  the sleep of line 73 stands in the handler, outside the \<^verbatim>\<open>try\<close>.
\<close>

function fetch_loop ::
  "world \<Rightarrow> string \<Rightarrow> int \<Rightarrow> int \<Rightarrow> real \<Rightarrow> int \<Rightarrow> state \<Rightarrow> (exc + frame option) \<times> state" where
  "fetch_loop w symbol limit retries delay attempt s =
     (if attempt < retries then
        (case api_get_crypto_bars w symbol s of (resp, s1) \<Rightarrow>
          (case resp of
             Inr bars \<Rightarrow>
               if frame_empty bars then (Inr None, emit (Log WARNING ''No data received'' []) s1)
               else (Inr (Some (sort_index (tail limit bars))), s1)
           | Inl e \<Rightarrow>
               if e = APIError then
                 (let s2 = emit (Log ERROR ''API error while fetching data'' []) s1 in
                  if attempt + 1 < retries then
                    (case random_uniform w 1 delay (emit (Log INFO ''Retrying data fetch'' []) s2) of
                       (secs, s3) \<Rightarrow>
                         (case time_sleep secs s3 of
                            Inl e' \<Rightarrow> (Inl e', s3)
                          | Inr s4 \<Rightarrow> fetch_loop w symbol limit retries delay (attempt + 1) s4))
                  else (Inr None, s2))
               else (Inr None, emit (Log ERROR ''Error fetching data'' []) s1)))
      else (Inr None, s))"
  by pat_completeness auto
termination
  by (relation "measure (\<lambda>(w, symbol, limit, retries, delay, attempt, s). nat (retries - attempt))")
    auto

definition get_historical_data ::
  "world \<Rightarrow> string \<Rightarrow> int \<Rightarrow> int \<Rightarrow> real \<Rightarrow> state \<Rightarrow> (exc + frame option) \<times> state" where
  "get_historical_data w symbol limit retries delay s = fetch_loop w symbol limit retries delay 0 s"

section \<open>OrderExecution.place_order\<close>

definition estimated_fee :: "real \<Rightarrow> real \<Rightarrow> real \<Rightarrow> real" where
  "estimated_fee qty current_price fee_rate = qty * current_price * (fee_rate / 100)"

text \<open>
  \<^verbatim>\<open>place_order\<close> (lines 118-136): the order returned by the broker, or \<open>None\<close> when one of
  the two handlers caught an exception.
\<close>

definition place_order ::
  "world \<Rightarrow> real \<Rightarrow> string \<Rightarrow> real \<Rightarrow> string \<Rightarrow> string \<Rightarrow> state \<Rightarrow> order option \<times> state" where
  "place_order w fee_rate symbol qty side order_type s =
     (case api_get_latest_trade w symbol s of (latest_trade, s1) \<Rightarrow>
       (case latest_trade of
          Inl e \<Rightarrow>
            (None, emit (Log ERROR (if e = APIError then ''API error while placing order''
                                    else ''Error placing order'') []) s1)
        | Inr current_price \<Rightarrow>
            (let s2 = emit (Log INFO ''Estimated fee'' [Some (estimated_fee qty current_price fee_rate)]) s1
             in (case api_submit_order w symbol qty side order_type ''gtc'' s2 of (submitted, s3) \<Rightarrow>
                  (case submitted of
                     Inl e \<Rightarrow>
                       (None, emit (Log ERROR (if e = APIError then ''API error while placing order''
                                               else ''Error placing order'') []) s3)
                   | Inr order \<Rightarrow>
                       (Some order, emit (Log INFO ''Order placed'' [Some current_price]) s3))))))"

section \<open>AlpacaTradingBot\<close>

record bot =
  symbols :: "string list"
  short_window :: int
  long_window :: int
  fee_rate :: real

text \<open>
  \<^verbatim>\<open>process_symbol\<close> (lines 175-197). Every exception of its body is caught and logged, so
  the task only changes the state. The data fetch runs with the defaults of
  \<^verbatim>\<open>get_historical_data\<close>: \<^verbatim>\<open>limit=100, retries=3, delay=5\<close>.
\<close>

definition process_symbol :: "world \<Rightarrow> bot \<Rightarrow> string \<Rightarrow> state \<Rightarrow> state" where
  "process_symbol w b symbol s =
     (case get_historical_data w symbol 100 3 5 s of (fetched, s1) \<Rightarrow>
       (case fetched of
          Inl e \<Rightarrow> emit (Log ERROR ''Error processing symbol'' []) s1
        | Inr None \<Rightarrow>
            emit (AsyncSleep 300) (emit (Log ERROR ''Failed to fetch data, retrying in 5 minutes.'' []) s1)
        | Inr (Some data) \<Rightarrow>
            (case calculate (short_window b) (long_window b) (Some data) of (signals, data', logged) \<Rightarrow>
              (let s2 = s1\<lparr>trace := trace s1 @ logged\<rparr> in
               (case signals of
                  Inl e \<Rightarrow> emit (Log ERROR ''Error processing symbol'' []) s2
                | Inr (buy_signal, sell_signal) \<Rightarrow>
                    if buy_signal then
                      snd (place_order w (fee_rate b) symbol 1 ''buy'' ''market''
                            (emit (Log INFO ''Buy signal detected'' []) s2))
                    else if sell_signal then
                      snd (place_order w (fee_rate b) symbol 1 ''sell'' ''market''
                            (emit (Log INFO ''Sell signal detected'' []) s2))
                    else emit (Log INFO ''No trading signals'' []) s2)))))"

text \<open>
  \<^verbatim>\<open>(clock.next_open - clock.timestamp).seconds\<close>: the seconds field of the normalised
  difference (days, seconds, microseconds), which lies between 0 and 86399.
\<close>

definition seconds :: "int \<Rightarrow> int" where
  "seconds delta = (delta div 1000000) mod 86400"

text \<open>
  The tasks of one cycle (lines 163-164). A task gives up control only in its final
  \<^verbatim>\<open>asyncio.sleep(300)\<close>, after which it does nothing more; every other call blocks. So the
  events of the tasks happen in the order of the symbols, task after task.
\<close>

definition gather_symbols :: "world \<Rightarrow> bot \<Rightarrow> state \<Rightarrow> state" where
  "gather_symbols w b s = foldl (\<lambda>s' symbol. process_symbol w b symbol s') s (symbols b)"

text \<open>The body of the \<^verbatim>\<open>try\<close> of \<^verbatim>\<open>run\<close> (lines 155-167): one pass of the loop.\<close>

definition loop_body :: "world \<Rightarrow> bot \<Rightarrow> int \<Rightarrow> state \<Rightarrow> (raised + unit) \<times> state" where
  "loop_body w b check_interval s =
     (case api_get_clock w s of (resp, s1) \<Rightarrow>
       (case resp of
          Inl r \<Rightarrow> (Inl r, s1)
        | Inr clk \<Rightarrow>
            (let s2 = (if \<not> is_open clk then
                         emit (AsyncSleep (min check_interval (seconds (next_open clk - timestamp clk))))
                           (emit (Log INFO ''Market is closed.'' []) s1)
                       else s1);
                 s3 = gather_symbols w b s2;
                 s4 = emit (AsyncSleep check_interval) s3
             in (Inr (), s4))))"

datatype control = Continue | Break | Propagate raised

text \<open>One iteration of \<^verbatim>\<open>while True\<close> with its handlers (lines 153-173).\<close>

definition run_iteration :: "world \<Rightarrow> bot \<Rightarrow> int \<Rightarrow> state \<Rightarrow> control \<times> state" where
  "run_iteration w b check_interval s =
     (case loop_body w b check_interval s of (outcome, s1) \<Rightarrow>
       (case outcome of
          Inr u \<Rightarrow> (Continue, s1)
        | Inl KeyboardInterrupt \<Rightarrow> (Break, emit (Log INFO ''Stopping trading bot...'' []) s1)
        | Inl (Exc e) \<Rightarrow>
            (Continue, emit (AsyncSleep 300) (emit (Log ERROR ''Error in main loop'' []) s1))
        | Inl OtherBaseException \<Rightarrow> (Propagate OtherBaseException, s1)))"

text \<open>
  The loop of \<^verbatim>\<open>run\<close> may go on forever: \<open>run_loop n\<close> runs at most \<open>n\<close> iterations and
  answers \<open>None\<close> when the loop is still running after them, \<open>Some (Inr ())\<close> when the loop
  was left by \<^verbatim>\<open>break\<close>, and \<open>Some (Inl r)\<close> when \<open>r\<close> left \<^verbatim>\<open>run\<close> uncaught.
\<close>

fun run_loop :: "nat \<Rightarrow> world \<Rightarrow> bot \<Rightarrow> int \<Rightarrow> state \<Rightarrow> (raised + unit) option \<times> state" where
  "run_loop 0 w b check_interval s = (None, s)"
| "run_loop (Suc n) w b check_interval s =
     (case run_iteration w b check_interval s of
        (Continue, s1) \<Rightarrow> run_loop n w b check_interval s1
      | (Break, s1) \<Rightarrow> (Some (Inr ()), s1)
      | (Propagate r, s1) \<Rightarrow> (Some (Inl r), s1))"

definition run :: "nat \<Rightarrow> world \<Rightarrow> bot \<Rightarrow> int \<Rightarrow> state \<Rightarrow> (raised + unit) option \<times> state" where
  "run n w b check_interval s =
     run_loop n w b check_interval (emit (Log INFO ''Starting trading bot'' []) s)"

section \<open>Notions used to state the properties\<close>

text \<open>
  The shape of \<^verbatim>\<open>col.rolling(window=w).mean()\<close> that the properties of \<^verbatim>\<open>calculate\<close> rest
  on, whatever the arithmetic: a negative window is refused with \<open>ValueError\<close>; otherwise
  the result is a column of the same length, which is NaN at every row where the window
  is not yet full, and everywhere for a window of 0.
\<close>

definition pandas_rolling :: "(int \<Rightarrow> cell list \<Rightarrow> exc + cell list) \<Rightarrow> bool" where
  "pandas_rolling rolling \<longleftrightarrow>
     (\<forall>w xs. (w < 0 \<longrightarrow> rolling w xs = Inl ValueError)
         \<and> (0 \<le> w \<longrightarrow>
              (\<exists>col. rolling w xs = Inr col \<and> length col = length xs
                 \<and> (\<forall>i<length xs. w = 0 \<or> int (Suc i) < w \<longrightarrow> col ! i = None))))"

text \<open>
  The frame \<^verbatim>\<open>calculate\<close> leaves behind: the two rolling means stored as columns
  \<open>SMA_short\<close> and \<open>SMA_long\<close>.
\<close>

definition with_columns :: "cell list \<Rightarrow> cell list \<Rightarrow> frame \<Rightarrow> frame" where
  "with_columns short_ma long_ma d = setitem (setitem d ''SMA_short'' short_ma) ''SMA_long'' long_ma"


text \<open>The contract of \<^verbatim>\<open>random.random()\<close>: every number drawn lies in [0, 1).\<close>

definition random_ok :: "world \<Rightarrow> bool" where
  "random_ok w \<longleftrightarrow> (\<forall>n. 0 \<le> random_resp w n \<and> random_resp w n < 1)"

text \<open>The number of blocking sleeps (\<^verbatim>\<open>time.sleep\<close>) in the trace.\<close>

fun is_time_sleep :: "event \<Rightarrow> bool" where
  "is_time_sleep (TimeSleep secs) = True"
| "is_time_sleep e = False"

definition sleeps :: "state \<Rightarrow> nat" where
  "sleeps s = length (filter is_time_sleep (trace s))"

text \<open>
  The state after one attempt that failed with \<open>APIError\<close> and is retried: the call, the
  two log lines, the random draw and the sleep.
\<close>

definition retry_state :: "world \<Rightarrow> string \<Rightarrow> real \<Rightarrow> state \<Rightarrow> state" where
  "retry_state w symbol delay s =
     (let s1 = snd (api_get_crypto_bars w symbol s);
          s2 = emit (Log ERROR ''API error while fetching data'' []) s1;
          (secs, s3) = random_uniform w 1 delay (emit (Log INFO ''Retrying data fetch'' []) s2)
      in emit (TimeSleep secs) s3)"

text \<open>
  Python computes the fee in IEEE 754 binary64 arithmetic. \<open>binary64 e x\<close> is the binary64
  number nearest to \<open>x\<close> (ties to the even significand) for an \<open>x\<close> of binade \<open>e\<close>, that is
  with \<open>2 ^ e \<le> \<bar>x\<bar> < 2 ^ (e + 1)\<close>, in the normal range: the multiple of \<open>2 ^ (e - 52)\<close>
  nearest to \<open>x\<close>. It is used to check the fee example in the arithmetic of the program.
\<close>

definition round_half_even :: "real \<Rightarrow> int" where
  "round_half_even x =
     (if x - of_int \<lfloor>x\<rfloor> < 1 / 2 then \<lfloor>x\<rfloor>
      else if 1 / 2 < x - of_int \<lfloor>x\<rfloor> then \<lfloor>x\<rfloor> + 1
      else if even \<lfloor>x\<rfloor> then \<lfloor>x\<rfloor> else \<lfloor>x\<rfloor> + 1)"

definition in_binade :: "int \<Rightarrow> real \<Rightarrow> bool" where
  "in_binade e x \<longleftrightarrow> 2 powi e \<le> \<bar>x\<bar> \<and> \<bar>x\<bar> < 2 powi (e + 1)"

definition binary64 :: "int \<Rightarrow> real \<Rightarrow> real" where
  "binary64 e x = of_int (round_half_even (x / 2 powi (e - 52))) * 2 powi (e - 52)"

text \<open>The state the program starts in.\<close>

definition initial_state :: state where
  "initial_state =
     \<lparr>clock_calls = 0, bars_calls = 0, trade_calls = 0, order_calls = 0, random_calls = 0,
      trace = []\<rparr>"

section \<open>Scenarios\<close>

text \<open>
  The concrete inputs the properties are tried on: a series of three bars, and worlds in
  which the broker answers every call, fails the first two data requests with
  \<open>APIError\<close>, fails every data request with \<open>APIError\<close>, or fails the second request with
  another exception.
\<close>

definition sample_bars :: frame where
  "sample_bars = \<lparr>index = [1, 2, 3], columns = [(''close'', [Some 3, Some 1, Some 5])]\<rparr>"

definition calm_world :: world where
  "calm_world =
     \<lparr>get_clock_resp = (\<lambda>n. Inr \<lparr>is_open = True, next_open = 0, timestamp = 0\<rparr>),
      get_crypto_bars_resp = (\<lambda>n symbol. Inr sample_bars),
      get_latest_trade_resp = (\<lambda>n symbol. Inr 100),
      submit_order_resp = (\<lambda>n symbol. Inr ''order''),
      random_resp = (\<lambda>n. 1 / 2)\<rparr>"

definition two_failures_world :: world where
  "two_failures_world =
     calm_world\<lparr>get_crypto_bars_resp :=
       (\<lambda>n symbol. if n < 2 then Inl APIError else Inr sample_bars)\<rparr>"

definition failing_world :: world where
  "failing_world = calm_world\<lparr>get_crypto_bars_resp := (\<lambda>n symbol. Inl APIError)\<rparr>"

definition transport_error_world :: world where
  "transport_error_world =
     calm_world\<lparr>get_crypto_bars_resp :=
       (\<lambda>n symbol. if n < 1 then Inl APIError else Inl OtherError)\<rparr>"

text \<open>
  A world whose market clock reports closed, with the next opening one hour ahead; a
  world whose clock query fails; the bot as \<^verbatim>\<open>main.py\<close> starts it, and a bot with windows
  short enough for three bars to give a signal.
\<close>

definition closed_market_world :: world where
  "closed_market_world =
     calm_world\<lparr>get_clock_resp :=
       (\<lambda>n. Inr \<lparr>is_open = False, next_open = 3600000000, timestamp = 0\<rparr>)\<rparr>"

definition clock_error_world :: world where
  "clock_error_world = calm_world\<lparr>get_clock_resp := (\<lambda>n. Inl (Exc APIError))\<rparr>"

definition default_bot :: bot where
  "default_bot =
     \<lparr>symbols = [''BTC/USD'', ''ETH/USD''], short_window = 20, long_window = 50, fee_rate = 0.25\<rparr>"

definition signal_bot :: bot where
  "signal_bot = \<lparr>symbols = [''BTC/USD''], short_window = 1, long_window = 2, fee_rate = 0.25\<rparr>"

section \<open>Properties of calculate\<close>

lemma getitem_setitem_same: "getitem (setitem d k v) k = Inr v"
  by (simp add: getitem_def setitem_def update_conv')

lemma getitem_setitem_other: "k' \<noteq> k \<Longrightarrow> getitem (setitem d k v) k' = getitem d k'"
  by (simp add: getitem_def setitem_def update_conv')

lemma index_setitem: "index (setitem d k v) = index d"
  by (simp add: setitem_def)

lemma len_setitem: "len (setitem d k v) = len d"
  by (simp add: len_def setitem_def)

lemma wf_frame_column:
  assumes "wf_frame d" and "getitem d name = Inr col"
  shows "length col = len d"
proof -
  from assms(2) have "map_of (columns d) name = Some col"
    by (simp add: getitem_def split: option.splits)
  then have "(name, col) \<in> set (columns d)" by (rule map_of_SomeD)
  with assms(1) show ?thesis by (auto simp: wf_frame_def list_all_iff)
qed

lemma iloc_last: "xs \<noteq> [] \<Longrightarrow> iloc xs (- 1) = Inr (last xs)"
proof -
  assume "xs \<noteq> []"
  then have "1 \<le> length xs" by (cases xs) simp_all
  with \<open>xs \<noteq> []\<close> show ?thesis
    by (simp add: iloc_def last_conv_nth nat_diff_distrib')
qed


lemma iloc_prev: "2 \<le> length xs \<Longrightarrow> iloc xs (- 2) = Inr (xs ! (length xs - 2))"
  by (simp add: iloc_def nat_diff_distrib')




lemma cross_at_columns:
  "cross_at (with_columns short_ma long_ma d) i
     = (case iloc short_ma i of Inl e \<Rightarrow> Inl e | Inr a \<Rightarrow>
       (case iloc long_ma i of Inl e \<Rightarrow> Inl e | Inr b \<Rightarrow> Inr (py_gt a b)))"
  by (simp add: with_columns_def cross_at_def getitem_setitem_same getitem_setitem_other
      split: sum.split)

lemma signal_report_columns:
  assumes "getitem d ''close'' = Inr closes" "closes \<noteq> []" "short_ma \<noteq> []" "long_ma \<noteq> []"
  shows "signal_report (with_columns short_ma long_ma d) b =
     Inr [Log INFO (if b then ''Signal generated: BUY'' else ''Signal generated: SELL'') [],
          Log INFO ''Current price'' [last closes],
          Log INFO ''Short SMA'' [last short_ma],
          Log INFO ''Long SMA'' [last long_ma]]"
  using assms
  by (simp add: signal_report_def with_columns_def getitem_setitem_same getitem_setitem_other
      iloc_last)

text \<open>The call up to the two columns: what is left is the two comparisons.\<close>

lemma calculate_with_columns:
  assumes "getitem d ''close'' = Inr closes" "\<not> int (len d) < lw"
    "r sw closes = Inr short_ma" "r lw closes = Inr long_ma"
  shows "calculate_with r sw lw (Some d) =
    (case cross_at (with_columns short_ma long_ma d) (- 1) of
       Inl e \<Rightarrow> (Inl e, Some (with_columns short_ma long_ma d), [])
     | Inr current_cross \<Rightarrow>
      (case cross_at (with_columns short_ma long_ma d) (- 2) of
         Inl e \<Rightarrow> (Inl e, Some (with_columns short_ma long_ma d), [])
       | Inr prev_cross \<Rightarrow>
           if prev_cross \<noteq> current_cross then
             (case signal_report (with_columns short_ma long_ma d) (\<not> prev_cross \<and> current_cross) of
                Inl e \<Rightarrow> (Inl e, Some (with_columns short_ma long_ma d), [])
              | Inr report \<Rightarrow>
                  (Inr (\<not> prev_cross \<and> current_cross, prev_cross \<and> \<not> current_cross),
                   Some (with_columns short_ma long_ma d), report))
           else (Inr (\<not> prev_cross \<and> current_cross, prev_cross \<and> \<not> current_cross),
                 Some (with_columns short_ma long_ma d), [])))"
  using assms
  by (auto simp add: calculate_with_def getitem_setitem_other Let_def with_columns_def
      split: sum.split)

lemma calculate_with_sufficient:
  assumes "getitem d ''close'' = Inr closes" "\<not> int (len d) < lw"
    "r sw closes = Inr short_ma" "r lw closes = Inr long_ma"
    "length short_ma = n" "length long_ma = n" "length closes = n" "2 \<le> n"
  shows "fst (calculate_with r sw lw (Some d)) =
           Inr (\<not> py_gt (short_ma ! (n - 2)) (long_ma ! (n - 2)) \<and> py_gt (short_ma ! (n - 1)) (long_ma ! (n - 1)),
                py_gt (short_ma ! (n - 2)) (long_ma ! (n - 2)) \<and> \<not> py_gt (short_ma ! (n - 1)) (long_ma ! (n - 1)))"
proof -
  from assms have ne: "closes \<noteq> []" "short_ma \<noteq> []" "long_ma \<noteq> []" by auto
  have l1: "iloc short_ma (- 1) = Inr (short_ma ! (n - 1))" "iloc long_ma (- 1) = Inr (long_ma ! (n - 1))"
    using assms ne by (simp_all add: iloc_last last_conv_nth)
  have l2: "iloc short_ma (- 2) = Inr (short_ma ! (n - 2))" "iloc long_ma (- 2) = Inr (long_ma ! (n - 2))"
    using assms by (simp_all add: iloc_prev)
  have step: "calculate_with r sw lw (Some d) =
    (case cross_at (with_columns short_ma long_ma d) (- 1) of
       Inl e \<Rightarrow> (Inl e, Some (with_columns short_ma long_ma d), [])
     | Inr current_cross \<Rightarrow>
      (case cross_at (with_columns short_ma long_ma d) (- 2) of
         Inl e \<Rightarrow> (Inl e, Some (with_columns short_ma long_ma d), [])
       | Inr prev_cross \<Rightarrow>
           if prev_cross \<noteq> current_cross then
             (case signal_report (with_columns short_ma long_ma d) (\<not> prev_cross \<and> current_cross) of
                Inl e \<Rightarrow> (Inl e, Some (with_columns short_ma long_ma d), [])
              | Inr report \<Rightarrow>
                  (Inr (\<not> prev_cross \<and> current_cross, prev_cross \<and> \<not> current_cross),
                   Some (with_columns short_ma long_ma d), report))
           else (Inr (\<not> prev_cross \<and> current_cross, prev_cross \<and> \<not> current_cross),
                 Some (with_columns short_ma long_ma d), [])))"
    using assms(1-4)
    by (rule calculate_with_columns[where r = r and sw = sw and lw = lw and d = d
          and closes = closes and short_ma = short_ma and long_ma = long_ma])
  show ?thesis
    by (simp add: step cross_at_columns l1 l2 signal_report_columns[OF assms(1) ne])
qed

lemma pandas_rolling_exact: "pandas_rolling rolling_mean"
  by (auto simp add: pandas_rolling_def rolling_mean_def trailing_mean_def window_mean_def)

lemma pandas_rollingD:
  assumes "pandas_rolling r" "0 \<le> w"
  obtains col where "r w xs = Inr col" "length col = length xs"
    "\<And>i. i < length xs \<Longrightarrow> w = 0 \<or> int (Suc i) < w \<Longrightarrow> col ! i = None"
  using assms unfolding pandas_rolling_def by blast

lemma setitem_frame:
  "index (setitem d k v) = index d"
  "c \<noteq> k \<Longrightarrow> getitem (setitem d k v) c = getitem d c"
  by (simp_all add: setitem_def getitem_def update_conv')

text \<open>
  C2 (as amended). \<^verbatim>\<open>calculate\<close> does write to its argument: it stores the two rolling means
  in the frame it was given, as columns \<open>SMA_short\<close> and \<open>SMA_long\<close>. What it leaves alone is
  the index and every other column, the close prices among them; and an absent series or
  one shorter than \<open>long_window\<close> is left exactly as it was. On a series with a close
  column, at least \<open>long_window\<close> rows and non-negative windows the two columns hold the
  rolling means of the close prices.
\<close>

theorem calculate_frame_effect:
  "(case data of
      None \<Rightarrow> fst (snd (calculate sw lw data)) = None
    | Some d \<Rightarrow>
        (\<exists>d'. fst (snd (calculate sw lw data)) = Some d'
           \<and> index d' = index d
           \<and> (\<forall>c. c \<noteq> ''SMA_short'' \<and> c \<noteq> ''SMA_long'' \<longrightarrow> getitem d' c = getitem d c)
           \<and> (int (len d) < lw \<longrightarrow> d' = d)
           \<and> (\<forall>closes. getitem d ''close'' = Inr closes \<and> lw \<le> int (len d)
                  \<and> 0 \<le> sw \<and> 0 \<le> lw \<longrightarrow>
                getitem d' ''SMA_short'' = rolling_mean sw closes
                \<and> getitem d' ''SMA_long'' = rolling_mean lw closes)))"
  by (auto simp: calculate_def calculate_with_def Let_def setitem_frame getitem_setitem_same rolling_mean_def
      split: option.splits sum.splits if_splits)

theorem calculate_frame_effect_witness:
  "\<exists>d'. fst (snd (calculate 1 2 (Some sample_bars))) = Some d'
       \<and> index d' = index sample_bars
       \<and> getitem d' ''close'' = getitem sample_bars ''close''
       \<and> getitem d' ''SMA_short'' = Inr [Some 3, Some 1, Some 5]
       \<and> getitem d' ''SMA_long'' = Inr [None, Some 2, Some 3]"
proof -
  have g: "getitem sample_bars ''close'' = Inr [Some 3, Some 1, Some 5]"
    by (simp add: getitem_def sample_bars_def)
  have l: "2 \<le> int (len sample_bars)"
    by (simp add: len_def sample_bars_def)
  have r1: "rolling_mean 1 [Some 3, Some 1, Some 5] = Inr [Some 3, Some 1, Some 5]"
    by (simp add: rolling_mean_def trailing_mean_def window_mean_def upt_rec)
  have r2: "rolling_mean 2 [Some 3, Some 1, Some 5] = Inr [None, Some 2, Some 3]"
    by (simp add: rolling_mean_def trailing_mean_def window_mean_def upt_rec)
  from calculate_frame_effect[where data = "Some sample_bars" and sw = 1 and lw = 2]
  obtain d' where d': "fst (snd (calculate 1 2 (Some sample_bars))) = Some d'"
      "index d' = index sample_bars"
      "\<forall>c. c \<noteq> ''SMA_short'' \<and> c \<noteq> ''SMA_long'' \<longrightarrow> getitem d' c = getitem sample_bars c"
      "\<forall>closes. getitem sample_bars ''close'' = Inr closes \<and> 2 \<le> int (len sample_bars)
                  \<and> (0::int) \<le> 1 \<and> (0::int) \<le> 2 \<longrightarrow>
                getitem d' ''SMA_short'' = rolling_mean 1 closes
                \<and> getitem d' ''SMA_long'' = rolling_mean 2 closes"
    by auto
  from d'(3) have "getitem d' ''close'' = getitem sample_bars ''close''" by simp
  moreover from d'(4) g l r1 r2 have "getitem d' ''SMA_short'' = Inr [Some 3, Some 1, Some 5]"
    "getitem d' ''SMA_long'' = Inr [None, Some 2, Some 3]" by auto
  ultimately show ?thesis using d'(1,2) by blast
qed

text \<open>
  The claim as stated (the series is unchanged after the call, no columns added) fails on
  a series of two bars with windows 1 and 2: the frame comes back with two more columns.
\<close>

theorem calculate_mutates_input:
  "fst (snd (calculate 1 2 (Some \<lparr>index = [1, 2], columns = [(''close'', [Some 1, Some 2])]\<rparr>)))
     = Some \<lparr>index = [1, 2],
             columns = [(''close'', [Some 1, Some 2]), (''SMA_short'', [Some 1, Some 2]),
                        (''SMA_long'', [None, Some (3 / 2)])]\<rparr>
   \<and> fst (snd (calculate 1 2 (Some \<lparr>index = [1, 2], columns = [(''close'', [Some 1, Some 2])]\<rparr>)))
     \<noteq> Some \<lparr>index = [1, 2], columns = [(''close'', [Some 1, Some 2])]\<rparr>"
  by (simp add: calculate_def calculate_with_def len_def getitem_def setitem_def rolling_mean_def trailing_mean_def
      window_mean_def cross_at_def iloc_def py_gt_def signal_report_def Let_def)

text \<open>
  C3 (as amended). Let the series be well formed, with a close column, at least two rows
  and at least \<open>long_window\<close> rows, and let both windows be non-negative. Then
  \<^verbatim>\<open>calculate\<close> returns \<open>buy = \<not> prev \<and> curr\<close> and \<open>sell = prev \<and> \<not> curr\<close>, where \<open>curr\<close> and
  \<open>prev\<close> compare the two columns that the rolling mean returns for the short and the
  long window (the means as computed, whatever their rounding) at the last and at the
  second-to-last row; the comparison is false when one side is NaN. So a flip from
  not-above to above gives (True, False), a flip from above to not-above gives
  (False, True), and no flip gives (False, False).
\<close>

theorem calculate_crossover:
  assumes "pandas_rolling r" and "wf_frame d" and "getitem d ''close'' = Inr closes"
    and "0 \<le> sw" and "0 \<le> lw" and "lw \<le> int (len d)" and "2 \<le> len d"
  shows "\<exists>short_ma long_ma.
           r sw closes = Inr short_ma \<and> r lw closes = Inr long_ma
         \<and> length short_ma = len d \<and> length long_ma = len d
         \<and> (let prev = py_gt (short_ma ! (len d - 2)) (long_ma ! (len d - 2));
                 curr = py_gt (short_ma ! (len d - 1)) (long_ma ! (len d - 1));
                 result = fst (calculate_with r sw lw (Some d))
             in result = Inr (\<not> prev \<and> curr, prev \<and> \<not> curr)
                \<and> (\<not> prev \<and> curr \<longrightarrow> result = Inr (True, False))
                \<and> (prev \<and> \<not> curr \<longrightarrow> result = Inr (False, True))
                \<and> (prev = curr \<longrightarrow> result = Inr (False, False)))"
proof -
  have n: "length closes = len d" using assms(2,3) by (rule wf_frame_column)
  from pandas_rollingD[OF assms(1,4), of closes] obtain short_ma where
    s: "r sw closes = Inr short_ma" "length short_ma = length closes" by blast
  from pandas_rollingD[OF assms(1,5), of closes] obtain long_ma where
    l: "r lw closes = Inr long_ma" "length long_ma = length closes" by blast
  from assms(6) have "\<not> int (len d) < lw" by simp
  from calculate_with_sufficient[where r = r and sw = sw and lw = lw and d = d
      and closes = closes and short_ma = short_ma and long_ma = long_ma and n = "len d"]
    assms(3,7) this s l n
  have "fst (calculate_with r sw lw (Some d)) =
           Inr (\<not> py_gt (short_ma ! (len d - 2)) (long_ma ! (len d - 2))
                  \<and> py_gt (short_ma ! (len d - 1)) (long_ma ! (len d - 1)),
                py_gt (short_ma ! (len d - 2)) (long_ma ! (len d - 2))
                  \<and> \<not> py_gt (short_ma ! (len d - 1)) (long_ma ! (len d - 1)))"
    by simp
  with s l n show ?thesis by (auto simp: Let_def)
qed

theorem calculate_crossover_witness:
  "pandas_rolling rolling_mean
   \<and> wf_frame sample_bars
   \<and> getitem sample_bars ''close'' = Inr [Some 3, Some 1, Some 5]
   \<and> rolling_mean 1 [Some 3, Some 1, Some 5] = Inr [Some 3, Some 1, Some 5]
   \<and> rolling_mean 2 [Some 3, Some 1, Some 5] = Inr [None, Some 2, Some 3]
   \<and> fst (calculate_with rolling_mean 1 2 (Some sample_bars)) = Inr (True, False)"
proof -
  have wf: "wf_frame sample_bars" by (simp add: wf_frame_def len_def sample_bars_def)
  have g: "getitem sample_bars ''close'' = Inr [Some 3, Some 1, Some 5]"
    by (simp add: getitem_def sample_bars_def)
  have l: "len sample_bars = 3" by (simp add: len_def sample_bars_def)
  have r1: "rolling_mean 1 [Some 3, Some 1, Some 5] = Inr [Some 3, Some 1, Some 5]"
    by (simp add: rolling_mean_def trailing_mean_def window_mean_def upt_rec)
  have r2: "rolling_mean 2 [Some 3, Some 1, Some 5] = Inr [None, Some 2, Some 3]"
    by (simp add: rolling_mean_def trailing_mean_def window_mean_def upt_rec)
  from calculate_crossover[OF pandas_rolling_exact wf g, of 1 2]
  have "fst (calculate_with rolling_mean 1 2 (Some sample_bars)) = Inr (True, False)"
    by (simp add: l r1 r2 Let_def py_gt_def)
  with pandas_rolling_exact wf g r1 r2 show ?thesis by simp
qed

text \<open>
  The claim as stated, for every series of at least \<open>long_window\<close> rows, fails where the
  series has no second-to-last row: with both windows 1 a series of one bar passes the
  length check, and reading \<^verbatim>\<open>iloc[-2]\<close> raises \<open>IndexError\<close> instead of returning a pair.
  (The mean of a window of one value is that value, with no rounding.)
\<close>

theorem calculate_one_row_raises:
  "1 \<le> int (len \<lparr>index = [1], columns = [(''close'', [Some 5])]\<rparr>)
   \<and> fst (calculate 1 1 (Some \<lparr>index = [1], columns = [(''close'', [Some 5])]\<rparr>)) = Inl IndexError"
  by (simp add: calculate_def calculate_with_def len_def getitem_def setitem_def rolling_mean_def
      trailing_mean_def window_mean_def cross_at_def iloc_def py_gt_def Let_def)

text \<open>A negative window is refused by the rolling mean, whatever the length of the series.\<close>

lemma calculate_negative_window_raises:
  "fst (calculate (- 1) 2 (Some sample_bars)) = Inl ValueError"
  by (simp add: calculate_def calculate_with_def len_def getitem_def rolling_mean_def
      sample_bars_def)

text \<open>
  C4. Whatever the input, \<^verbatim>\<open>calculate\<close> never returns buy and sell both true.
\<close>

theorem calculate_never_both:
  "fst (calculate sw lw data) \<noteq> Inr (True, True)"
  by (auto simp: calculate_def calculate_with_def Let_def split: option.splits sum.splits if_splits)

text \<open>
  C5. An absent series, and every series with fewer rows than \<open>long_window\<close>, gives the
  pair (False, False), never an exception.
\<close>

theorem calculate_insufficient_data:
  assumes "data = None \<or> (\<exists>d. data = Some d \<and> int (len d) < lw)"
  shows "fst (calculate sw lw data) = Inr (False, False)"
  using assms by (auto simp: calculate_def calculate_with_def)

theorem calculate_insufficient_data_witness:
  "fst (calculate 20 50 None) = Inr (False, False)
   \<and> int (len sample_bars) < 50
   \<and> fst (calculate 20 50 (Some sample_bars)) = Inr (False, False)"
proof -
  have short: "int (len sample_bars) < 50" by (simp add: len_def sample_bars_def)
  from calculate_insufficient_data[where data = None and lw = 50 and sw = 20]
    calculate_insufficient_data[where data = "Some sample_bars" and lw = 50 and sw = 20] short
  show ?thesis by simp
qed

text \<open>
  These properties of \<^verbatim>\<open>calculate\<close> do not depend on the values of the rolling means: they
  hold for every function in the place of \<^verbatim>\<open>rolling(window).mean()\<close>.
\<close>

lemma calculate_with_never_both:
  "fst (calculate_with r sw lw data) \<noteq> Inr (True, True)"
  by (auto simp: calculate_with_def Let_def split: option.splits sum.splits if_splits)

lemma calculate_with_insufficient_data:
  assumes "data = None \<or> (\<exists>d. data = Some d \<and> int (len d) < lw)"
  shows "fst (calculate_with r sw lw data) = Inr (False, False)"
  using assms by (auto simp: calculate_with_def)

lemma calculate_with_frame_effect:
  "(case data of
      None \<Rightarrow> fst (snd (calculate_with r sw lw data)) = None
    | Some d \<Rightarrow>
        (\<exists>d'. fst (snd (calculate_with r sw lw data)) = Some d'
           \<and> index d' = index d
           \<and> (\<forall>c. c \<noteq> ''SMA_short'' \<and> c \<noteq> ''SMA_long'' \<longrightarrow> getitem d' c = getitem d c)
           \<and> (int (len d) < lw \<longrightarrow> d' = d)
           \<and> (\<forall>closes short_ma long_ma. getitem d ''close'' = Inr closes \<and> lw \<le> int (len d)
                  \<and> r sw closes = Inr short_ma \<and> r lw closes = Inr long_ma \<longrightarrow>
                getitem d' ''SMA_short'' = Inr short_ma \<and> getitem d' ''SMA_long'' = Inr long_ma)))"
  by (auto simp: calculate_with_def Let_def setitem_frame getitem_setitem_same
      split: option.splits sum.splits if_splits)



section \<open>Properties of get_historical_data\<close>

declare fetch_loop.simps [simp del]

lemma uniform_nonneg:
  assumes "0 \<le> delay" "0 \<le> r" "r < 1"
  shows "0 \<le> 1 + (delay - 1) * (r::real)"
proof -
  have "1 + (delay - 1) * r = (1 - r) + delay * r" by (simp add: algebra_simps)
  also have "0 \<le> \<dots>" using assms by simp
  finally show ?thesis .
qed

lemma retry_state_counts:
  "bars_calls (retry_state w symbol delay s) = Suc (bars_calls s)"
  "sleeps (retry_state w symbol delay s) = Suc (sleeps s)"
  by (simp_all add: retry_state_def api_get_crypto_bars_def emit_def random_uniform_def sleeps_def
      Let_def)

lemma fetch_loop_retry:
  assumes "0 \<le> delay" "random_ok w" "attempt + 1 < retries"
    "get_crypto_bars_resp w (bars_calls s) symbol = Inl APIError"
  shows "fetch_loop w symbol limit retries delay attempt s =
         fetch_loop w symbol limit retries delay (attempt + 1) (retry_state w symbol delay s)"
proof -
  have "0 \<le> 1 + (delay - 1) * random_resp w n" for n
    using assms(1,2) uniform_nonneg by (simp add: random_ok_def)
  then show ?thesis
    using assms(3,4)
    by (subst fetch_loop.simps)
      (simp add: retry_state_def api_get_crypto_bars_def random_uniform_def time_sleep_def
        emit_def Let_def not_less[symmetric])
qed

lemma fetch_loop_api_errors:
  assumes "0 \<le> delay" "random_ok w"
    "\<forall>i<j. get_crypto_bars_resp w (bars_calls s + i) symbol = Inl APIError"
    "attempt + int j < retries"
  shows "\<exists>s'. fetch_loop w symbol limit retries delay attempt s =
              fetch_loop w symbol limit retries delay (attempt + int j) s'
            \<and> bars_calls s' = bars_calls s + j \<and> sleeps s' = sleeps s + j"
  using assms(3,4)
proof (induction j arbitrary: attempt s)
  case 0
  then show ?case by auto
next
  case (Suc j)
  let ?s1 = "retry_state w symbol delay s"
  have first: "get_crypto_bars_resp w (bars_calls s) symbol = Inl APIError"
    using Suc.prems(1) by (metis add.right_neutral zero_less_Suc)
  have step: "fetch_loop w symbol limit retries delay attempt s =
              fetch_loop w symbol limit retries delay (attempt + 1) ?s1"
    using fetch_loop_retry[OF assms(1,2) _ first] Suc.prems(2) by simp
  have rest: "\<forall>i<j. get_crypto_bars_resp w (bars_calls ?s1 + i) symbol = Inl APIError"
  proof (intro allI impI)
    fix i assume "i < j"
    then have "Suc i < Suc j" by simp
    with Suc.prems(1) have "get_crypto_bars_resp w (bars_calls s + Suc i) symbol = Inl APIError"
      by blast
    then show "get_crypto_bars_resp w (bars_calls ?s1 + i) symbol = Inl APIError"
      by (simp add: retry_state_counts)
  qed
  from Suc.IH[OF rest, of "attempt + 1"] Suc.prems(2)
  obtain s' where "fetch_loop w symbol limit retries delay (attempt + 1) ?s1 =
              fetch_loop w symbol limit retries delay (attempt + 1 + int j) s'"
    and "bars_calls s' = bars_calls ?s1 + j" and "sleeps s' = sleeps ?s1 + j"
    by auto
  with step show ?case
    by (auto simp: retry_state_counts add.commute add.left_commute)
qed


lemma fetch_loop_attempts:
  "bars_calls s \<le> bars_calls (snd (fetch_loop w symbol limit retries delay attempt s))
   \<and> bars_calls (snd (fetch_loop w symbol limit retries delay attempt s))
       \<le> bars_calls s + nat (retries - attempt)
   \<and> (\<forall>i. bars_calls s + Suc i < bars_calls (snd (fetch_loop w symbol limit retries delay attempt s))
          \<longrightarrow> get_crypto_bars_resp w (bars_calls s + i) symbol = Inl APIError)"
proof (induction "nat (retries - attempt)" arbitrary: attempt s)
  case 0
  then have "\<not> attempt < retries" by simp
  then show ?case by (subst (1 2 3) fetch_loop.simps) simp
next
  case (Suc n)
  then have lt: "attempt < retries" by simp
  show ?case
  proof (cases "get_crypto_bars_resp w (bars_calls s) symbol")
    case (Inr bars)
    with lt show ?thesis
      by (subst (1 2 3) fetch_loop.simps) (simp add: api_get_crypto_bars_def emit_def)
  next
    case (Inl e)
    show ?thesis
    proof (cases "e = APIError \<and> attempt + 1 < retries
        \<and> 0 \<le> 1 + (delay - 1) * random_resp w (random_calls s)")
      case False
      with lt Inl show ?thesis
        by (subst (1 2 3) fetch_loop.simps)
          (auto simp add: api_get_crypto_bars_def emit_def random_uniform_def time_sleep_def Let_def)
    next
      case True
      let ?s4 = "retry_state w symbol delay s"
      let ?r = "fetch_loop w symbol limit retries delay (attempt + 1) ?s4"
      have eq: "fetch_loop w symbol limit retries delay attempt s = ?r"
        using lt Inl True
        by (subst fetch_loop.simps)
          (simp add: retry_state_def api_get_crypto_bars_def random_uniform_def time_sleep_def
            emit_def Let_def not_less[symmetric])
      have "n = nat (retries - (attempt + 1))"
        using Suc.hyps(2) by simp
      from Suc.hyps(1)[OF this, of ?s4]
      have IH: "bars_calls ?s4 \<le> bars_calls (snd ?r)"
        "bars_calls (snd ?r) \<le> bars_calls ?s4 + nat (retries - (attempt + 1))"
        "\<And>i. bars_calls ?s4 + Suc i < bars_calls (snd ?r)
           \<Longrightarrow> get_crypto_bars_resp w (bars_calls ?s4 + i) symbol = Inl APIError"
        by auto
      have first: "get_crypto_bars_resp w (bars_calls s) symbol = Inl APIError"
        using Inl True by simp
      have calls: "bars_calls ?s4 = Suc (bars_calls s)"
        by (simp add: retry_state_counts)
      have "get_crypto_bars_resp w (bars_calls s + i) symbol = Inl APIError"
        if "bars_calls s + Suc i < bars_calls (snd ?r)" for i
      proof (cases i)
        case 0
        with first show ?thesis by simp
      next
        case (Suc k)
        with that IH(3)[of k] calls show ?thesis by simp
      qed
      moreover have "bars_calls s \<le> bars_calls (snd ?r)"
        using IH(1) calls by simp
      moreover have "bars_calls (snd ?r) \<le> bars_calls s + nat (retries - attempt)"
        using IH(2) calls lt by simp
      ultimately show ?thesis
        unfolding eq by blast
    qed
  qed
qed


lemma fetch_loop_exit:
  "\<not> attempt < retries \<Longrightarrow> fetch_loop w symbol limit retries delay attempt s = (Inr None, s)"
  by (subst fetch_loop.simps) simp

lemma fetch_loop_success:
  assumes "attempt < retries" "get_crypto_bars_resp w (bars_calls s) symbol = Inr bars"
    "\<not> frame_empty bars"
  shows "fetch_loop w symbol limit retries delay attempt s =
         (Inr (Some (sort_index (tail limit bars))), snd (api_get_crypto_bars w symbol s))"
  using assms by (subst fetch_loop.simps) (simp add: api_get_crypto_bars_def)

lemma fetch_loop_last_api_error:
  assumes "attempt < retries" "\<not> attempt + 1 < retries"
    "get_crypto_bars_resp w (bars_calls s) symbol = Inl APIError"
  shows "fetch_loop w symbol limit retries delay attempt s =
         (Inr None, emit (Log ERROR ''API error while fetching data'' [])
                      (snd (api_get_crypto_bars w symbol s)))"
  using assms by (subst fetch_loop.simps) (simp add: api_get_crypto_bars_def)

lemma fetch_loop_other_error:
  assumes "attempt < retries" "get_crypto_bars_resp w (bars_calls s) symbol = Inl e"
    "e \<noteq> APIError"
  shows "fetch_loop w symbol limit retries delay attempt s =
         (Inr None, emit (Log ERROR ''Error fetching data'' [])
                      (snd (api_get_crypto_bars w symbol s)))"
  using assms by (subst fetch_loop.simps) (simp add: api_get_crypto_bars_def)

lemma api_get_crypto_bars_counts:
  "bars_calls (snd (api_get_crypto_bars w symbol s)) = Suc (bars_calls s)"
  "sleeps (snd (api_get_crypto_bars w symbol s)) = sleeps s"
  "bars_calls (emit (Log l m a) s) = bars_calls s"
  "sleeps (emit (Log l m a) s) = sleeps s"
  by (simp_all add: api_get_crypto_bars_def emit_def sleeps_def)

lemma all_api_errors:
  assumes "0 \<le> delay" "random_ok w"
    "\<forall>i < nat retries. get_crypto_bars_resp w (bars_calls s + i) symbol = Inl APIError"
  shows "fst (get_historical_data w symbol limit retries delay s) = Inr None
       \<and> bars_calls (snd (get_historical_data w symbol limit retries delay s)) = bars_calls s + nat retries
       \<and> sleeps (snd (get_historical_data w symbol limit retries delay s)) = sleeps s + (nat retries - 1)"
proof (cases "0 < retries")
  case False
  then show ?thesis by (simp add: get_historical_data_def fetch_loop_exit)
next
  case True
  define j where "j = nat retries - 1"
  have j: "int j = retries - 1" "nat retries = Suc j" using True by (simp_all add: j_def)
  have "\<forall>i<j. get_crypto_bars_resp w (bars_calls s + i) symbol = Inl APIError"
    using assms(3) j by simp
  from fetch_loop_api_errors[OF assms(1,2) this, of 0 retries limit] j
  obtain s' where s': "fetch_loop w symbol limit retries delay 0 s =
      fetch_loop w symbol limit retries delay (int j) s'"
    "bars_calls s' = bars_calls s + j" "sleeps s' = sleeps s + j"
    by auto
  have "get_crypto_bars_resp w (bars_calls s') symbol = Inl APIError"
    using assms(3) j s'(2) by simp
  from fetch_loop_last_api_error[OF _ _ this, of "int j" retries limit delay] j
  have "fetch_loop w symbol limit retries delay (int j) s' =
         (Inr None, emit (Log ERROR ''API error while fetching data'' [])
                      (snd (api_get_crypto_bars w symbol s')))"
    by simp
  with s' j show ?thesis
    by (simp add: get_historical_data_def api_get_crypto_bars_counts)
qed

lemma success_after_api_errors:
  assumes "0 \<le> delay" "random_ok w" "int k < retries"
    "\<forall>i<k. get_crypto_bars_resp w (bars_calls s + i) symbol = Inl APIError"
    "get_crypto_bars_resp w (bars_calls s + k) symbol = Inr bars" "\<not> frame_empty bars"
  shows "fst (get_historical_data w symbol limit retries delay s) = Inr (Some (sort_index (tail limit bars)))
       \<and> bars_calls (snd (get_historical_data w symbol limit retries delay s)) = bars_calls s + Suc k
       \<and> sleeps (snd (get_historical_data w symbol limit retries delay s)) = sleeps s + k"
proof -
  from fetch_loop_api_errors[OF assms(1,2,4), of 0 retries limit] assms(3)
  obtain s' where s': "fetch_loop w symbol limit retries delay 0 s =
      fetch_loop w symbol limit retries delay (int k) s'"
    "bars_calls s' = bars_calls s + k" "sleeps s' = sleeps s + k"
    by auto
  have "get_crypto_bars_resp w (bars_calls s') symbol = Inr bars"
    using assms(5) s'(2) by simp
  from fetch_loop_success[OF assms(3) this assms(6), of limit delay] s'
  show ?thesis
    by (simp add: get_historical_data_def api_get_crypto_bars_counts)
qed

lemma other_error_after_api_errors:
  assumes "0 \<le> delay" "random_ok w" "int k < retries"
    "\<forall>i<k. get_crypto_bars_resp w (bars_calls s + i) symbol = Inl APIError"
    "get_crypto_bars_resp w (bars_calls s + k) symbol = Inl e" "e \<noteq> APIError"
  shows "fst (get_historical_data w symbol limit retries delay s) = Inr None
       \<and> bars_calls (snd (get_historical_data w symbol limit retries delay s)) = bars_calls s + Suc k"
proof -
  from fetch_loop_api_errors[OF assms(1,2,4), of 0 retries limit] assms(3)
  obtain s' where s': "fetch_loop w symbol limit retries delay 0 s =
      fetch_loop w symbol limit retries delay (int k) s'"
    "bars_calls s' = bars_calls s + k" "sleeps s' = sleeps s + k"
    by auto
  have "get_crypto_bars_resp w (bars_calls s') symbol = Inl e"
    using assms(5) s'(2) by simp
  from fetch_loop_other_error[OF assms(3) this assms(6), of limit delay] s'
  show ?thesis
    by (simp add: get_historical_data_def api_get_crypto_bars_counts)
qed

text \<open>
  C6. \<^verbatim>\<open>get_historical_data\<close> asks the broker at most \<open>retries\<close> times, and every request
  but the last one it makes was answered by \<open>APIError\<close>: nothing else is retried. With a
  non-negative \<open>delay\<close> (the sleeps between attempts are then accepted): when all \<open>retries\<close>
  requests fail with \<open>APIError\<close> it returns \<open>None\<close> after exactly \<open>retries\<close> requests, having
  slept between them; and when the first \<open>k\<close> requests fail with \<open>APIError\<close> and request
  \<open>k + 1 \<le> retries\<close> brings bars, it returns the last \<open>limit\<close> bars sorted by time after
  exactly \<open>k + 1\<close> requests and \<open>k\<close> sleeps.
\<close>

theorem get_historical_data_retry_policy:
  "bars_calls (snd (get_historical_data w symbol limit retries delay s)) \<le> bars_calls s + nat retries
   \<and> (\<forall>i. bars_calls s + Suc i < bars_calls (snd (get_historical_data w symbol limit retries delay s))
          \<longrightarrow> get_crypto_bars_resp w (bars_calls s + i) symbol = Inl APIError)
   \<and> (0 \<le> delay \<and> random_ok w
        \<and> (\<forall>i < nat retries. get_crypto_bars_resp w (bars_calls s + i) symbol = Inl APIError)
      \<longrightarrow> fst (get_historical_data w symbol limit retries delay s) = Inr None
          \<and> bars_calls (snd (get_historical_data w symbol limit retries delay s)) = bars_calls s + nat retries
          \<and> sleeps (snd (get_historical_data w symbol limit retries delay s)) = sleeps s + (nat retries - 1))
   \<and> (\<forall>k bars. 0 \<le> delay \<and> random_ok w \<and> int k < retries
        \<and> (\<forall>i<k. get_crypto_bars_resp w (bars_calls s + i) symbol = Inl APIError)
        \<and> get_crypto_bars_resp w (bars_calls s + k) symbol = Inr bars \<and> \<not> frame_empty bars
      \<longrightarrow> fst (get_historical_data w symbol limit retries delay s)
             = Inr (Some (sort_index (tail limit bars)))
          \<and> bars_calls (snd (get_historical_data w symbol limit retries delay s)) = bars_calls s + Suc k
          \<and> sleeps (snd (get_historical_data w symbol limit retries delay s)) = sleeps s + k)"
proof -
  have bound: "bars_calls (snd (get_historical_data w symbol limit retries delay s))
      \<le> bars_calls s + nat retries"
    and only_api: "\<forall>i. bars_calls s + Suc i
          < bars_calls (snd (get_historical_data w symbol limit retries delay s))
        \<longrightarrow> get_crypto_bars_resp w (bars_calls s + i) symbol = Inl APIError"
    using fetch_loop_attempts[of s w symbol limit retries delay 0]
    by (simp_all add: get_historical_data_def)
  show ?thesis
    using bound only_api all_api_errors[of delay w retries s symbol limit]
      success_after_api_errors[of delay w _ retries s symbol _ limit]
    by blast
qed

theorem get_historical_data_retry_policy_witness:
  "fst (get_historical_data two_failures_world ''BTC/USD'' 100 3 5 initial_state)
     = Inr (Some (sort_index (tail 100 sample_bars)))
   \<and> bars_calls (snd (get_historical_data two_failures_world ''BTC/USD'' 100 3 5 initial_state)) = 3
   \<and> sleeps (snd (get_historical_data two_failures_world ''BTC/USD'' 100 3 5 initial_state)) = 2
   \<and> fst (get_historical_data failing_world ''BTC/USD'' 100 3 5 initial_state) = Inr None
   \<and> bars_calls (snd (get_historical_data failing_world ''BTC/USD'' 100 3 5 initial_state)) = 3
   \<and> sleeps (snd (get_historical_data failing_world ''BTC/USD'' 100 3 5 initial_state)) = 2"
proof -
  have ok: "random_ok two_failures_world"
    by (simp add: random_ok_def two_failures_world_def calm_world_def)
  have fails: "\<forall>i<2. get_crypto_bars_resp two_failures_world (bars_calls initial_state + i) ''BTC/USD''
      = Inl APIError"
    by (simp add: two_failures_world_def initial_state_def)
  have third: "get_crypto_bars_resp two_failures_world (bars_calls initial_state + 2) ''BTC/USD''
      = Inr sample_bars"
    by (simp add: two_failures_world_def initial_state_def)
  have ne: "\<not> frame_empty sample_bars"
    by (simp add: frame_empty_def sample_bars_def)
  from get_historical_data_retry_policy[of two_failures_world "''BTC/USD''" 100 3 5 initial_state]
  have "0 \<le> (5::real) \<and> random_ok two_failures_world \<and> int 2 < 3
        \<and> (\<forall>i<2. get_crypto_bars_resp two_failures_world (bars_calls initial_state + i) ''BTC/USD'' = Inl APIError)
        \<and> get_crypto_bars_resp two_failures_world (bars_calls initial_state + 2) ''BTC/USD'' = Inr sample_bars
        \<and> \<not> frame_empty sample_bars
      \<longrightarrow> fst (get_historical_data two_failures_world ''BTC/USD'' 100 3 5 initial_state)
             = Inr (Some (sort_index (tail 100 sample_bars)))
          \<and> bars_calls (snd (get_historical_data two_failures_world ''BTC/USD'' 100 3 5 initial_state))
             = bars_calls initial_state + Suc 2
          \<and> sleeps (snd (get_historical_data two_failures_world ''BTC/USD'' 100 3 5 initial_state))
             = sleeps initial_state + 2"
    by blast
  with ok fails third ne have success:
    "fst (get_historical_data two_failures_world ''BTC/USD'' 100 3 5 initial_state)
       = Inr (Some (sort_index (tail 100 sample_bars)))
     \<and> bars_calls (snd (get_historical_data two_failures_world ''BTC/USD'' 100 3 5 initial_state)) = 3
     \<and> sleeps (snd (get_historical_data two_failures_world ''BTC/USD'' 100 3 5 initial_state)) = 2"
    by (simp add: initial_state_def sleeps_def)
  have ok': "random_ok failing_world"
    by (simp add: random_ok_def failing_world_def calm_world_def)
  have all: "\<forall>i < nat 3. get_crypto_bars_resp failing_world (bars_calls initial_state + i) ''BTC/USD''
      = Inl APIError"
    by (simp add: failing_world_def)
  from get_historical_data_retry_policy[of failing_world "''BTC/USD''" 100 3 5 initial_state]
  have "0 \<le> (5::real) \<and> random_ok failing_world
        \<and> (\<forall>i < nat 3. get_crypto_bars_resp failing_world (bars_calls initial_state + i) ''BTC/USD''
              = Inl APIError)
      \<longrightarrow> fst (get_historical_data failing_world ''BTC/USD'' 100 3 5 initial_state) = Inr None
          \<and> bars_calls (snd (get_historical_data failing_world ''BTC/USD'' 100 3 5 initial_state))
             = bars_calls initial_state + nat 3
          \<and> sleeps (snd (get_historical_data failing_world ''BTC/USD'' 100 3 5 initial_state))
             = sleeps initial_state + (nat 3 - 1)"
    by blast
  with ok' all have "fst (get_historical_data failing_world ''BTC/USD'' 100 3 5 initial_state) = Inr None
     \<and> bars_calls (snd (get_historical_data failing_world ''BTC/USD'' 100 3 5 initial_state)) = 3
     \<and> sleeps (snd (get_historical_data failing_world ''BTC/USD'' 100 3 5 initial_state)) = 2"
    by (simp add: initial_state_def sleeps_def)
  with success show ?thesis by simp
qed

text \<open>
  C10. When a request fails with an exception other than \<open>APIError\<close> (here after \<open>k\<close>
  requests that failed with \<open>APIError\<close> and were retried), \<^verbatim>\<open>get_historical_data\<close> returns
  \<open>None\<close> at once: that request is the last one, whatever \<open>retries\<close> still allows.
\<close>

theorem get_historical_data_other_exception:
  assumes "0 \<le> delay" and "random_ok w" and "int k < retries"
    and "\<forall>i<k. get_crypto_bars_resp w (bars_calls s + i) symbol = Inl APIError"
    and "get_crypto_bars_resp w (bars_calls s + k) symbol = Inl e" and "e \<noteq> APIError"
  shows "fst (get_historical_data w symbol limit retries delay s) = Inr None
       \<and> bars_calls (snd (get_historical_data w symbol limit retries delay s)) = bars_calls s + Suc k"
  using other_error_after_api_errors[OF assms] .

theorem get_historical_data_other_exception_witness:
  "fst (get_historical_data transport_error_world ''BTC/USD'' 100 3 5 initial_state) = Inr None
   \<and> bars_calls (snd (get_historical_data transport_error_world ''BTC/USD'' 100 3 5 initial_state)) = 2"
proof -
  have ok: "random_ok transport_error_world"
    by (simp add: random_ok_def transport_error_world_def calm_world_def)
  have fails: "\<forall>i<1. get_crypto_bars_resp transport_error_world (bars_calls initial_state + i) ''BTC/USD''
      = Inl APIError"
    by (simp add: transport_error_world_def initial_state_def)
  have second: "get_crypto_bars_resp transport_error_world (bars_calls initial_state + 1) ''BTC/USD''
      = Inl OtherError"
    by (simp add: transport_error_world_def initial_state_def)
  from get_historical_data_other_exception[of 5 transport_error_world 1 3 initial_state "''BTC/USD''"
      OtherError 100, OF _ ok _ fails second]
  show ?thesis by (simp add: initial_state_def)
qed

section \<open>Properties of place_order\<close>

text \<open>
  C7. The estimated fee is \<open>qty * current_price * (fee_rate / 100)\<close>, a function of its three
  inputs; for quantity 1, price 100.0 and fee rate 0.25 it is 0.25; and this is the number
  \<^verbatim>\<open>place_order\<close> reports, right after it has read the latest trade price. Prices are read
  as real numbers.
\<close>

theorem place_order_estimated_fee:
  "estimated_fee qty current_price rate = qty * current_price * (rate / 100)
   \<and> estimated_fee 1 100.0 0.25 = 0.25
   \<and> (get_latest_trade_resp w (trade_calls s) symbol = Inr current_price \<longrightarrow>
        take 2 (drop (length (trace s)) (trace (snd (place_order w rate symbol qty side order_type s))))
          = [GetLatestTrade symbol,
             Log INFO ''Estimated fee'' [Some (qty * current_price * (rate / 100))]])"
  by (simp add: estimated_fee_def place_order_def api_get_latest_trade_def api_submit_order_def
      emit_def Let_def split: sum.split)

theorem place_order_estimated_fee_witness:
  "get_latest_trade_resp calm_world (trade_calls initial_state) ''BTC/USD'' = Inr 100
   \<and> take 2 (drop (length (trace initial_state))
        (trace (snd (place_order calm_world 0.25 ''BTC/USD'' 1 ''buy'' ''market'' initial_state))))
      = [GetLatestTrade ''BTC/USD'', Log INFO ''Estimated fee'' [Some 0.25]]"
proof -
  have t: "get_latest_trade_resp calm_world (trade_calls initial_state) ''BTC/USD'' = Inr 100"
    by (simp add: calm_world_def)
  from place_order_estimated_fee[of 1 100 "0.25" calm_world initial_state "''BTC/USD''" "''buy''" "''market''"] t
  show ?thesis by simp
qed

text \<open>
  The example in binary64 arithmetic: \<open>1 * 100.0\<close> is 100, \<open>0.25 / 100\<close> rounds to
  \<open>5764607523034235 / 2 ^ 61\<close>, and the product of the two rounds to 0.25 exactly.
\<close>

lemma estimated_fee_example_binary64:
  "in_binade 6 (1 * 100) \<and> binary64 6 (1 * 100) = 100
   \<and> in_binade (- 9) (0.25 / 100) \<and> binary64 (- 9) (0.25 / 100) = 5764607523034235 / 2 ^ 61
   \<and> in_binade (- 2) (100 * (5764607523034235 / 2 ^ 61))
   \<and> binary64 (- 2) (binary64 6 (1 * 100) * binary64 (- 9) (0.25 / 100)) = 0.25"
  by (simp add: in_binade_def binary64_def round_half_even_def power_int_minus)

section \<open>Properties of run\<close>

lemma sample_tail_sorted: "sort_index (tail 100 sample_bars) = sample_bars"
  by (simp add: sort_index_def tail_def drop_rows_def len_def sample_bars_def upt_rec)

lemma calculate_sample_default:
  "calculate 20 50 (Some sample_bars) =
     (Inr (False, False), Some sample_bars,
      [Log WARNING ''Insufficient data for signal calculation.'' []])"
  by (simp add: calculate_def calculate_with_def len_def sample_bars_def)

lemma fetch_sample:
  "get_crypto_bars_resp w (bars_calls s) symbol = Inr sample_bars \<Longrightarrow>
   get_historical_data w symbol 100 3 5 s = (Inr (Some sample_bars), snd (api_get_crypto_bars w symbol s))"
proof -
  assume r: "get_crypto_bars_resp w (bars_calls s) symbol = Inr sample_bars"
  have ne: "\<not> frame_empty sample_bars" by (simp add: frame_empty_def sample_bars_def)
  from fetch_loop_success[OF _ r ne, of 0 3 100 5] show ?thesis
    by (simp add: get_historical_data_def sample_tail_sorted)
qed

lemma trace_emit: "trace (emit e s) = trace s @ [e]"
  by (simp add: emit_def)

lemma fetch_loop_extends:
  "\<exists>es. trace (snd (fetch_loop w symbol limit retries delay attempt s)) = trace s @ es"
proof (induction "nat (retries - attempt)" arbitrary: attempt s)
  case 0
  then have "\<not> attempt < retries" by simp
  then show ?case by (simp add: fetch_loop_exit)
next
  case (Suc n)
  then have lt: "attempt < retries" by simp
  show ?case
  proof (cases "get_crypto_bars_resp w (bars_calls s) symbol")
    case (Inr bars)
    with lt show ?thesis
      by (subst fetch_loop.simps) (simp add: api_get_crypto_bars_def emit_def)
  next
    case (Inl e)
    show ?thesis
    proof (cases "e = APIError \<and> attempt + 1 < retries
        \<and> 0 \<le> 1 + (delay - 1) * random_resp w (random_calls s)")
      case False
      with lt Inl show ?thesis
        by (subst fetch_loop.simps)
          (auto simp add: api_get_crypto_bars_def emit_def random_uniform_def time_sleep_def Let_def)
    next
      case True
      let ?s4 = "retry_state w symbol delay s"
      have eq: "fetch_loop w symbol limit retries delay attempt s =
                fetch_loop w symbol limit retries delay (attempt + 1) ?s4"
        using lt Inl True
        by (subst fetch_loop.simps)
          (simp add: retry_state_def api_get_crypto_bars_def random_uniform_def time_sleep_def
            emit_def Let_def not_less[symmetric])
      have "n = nat (retries - (attempt + 1))"
        using Suc.hyps(2) by simp
      from Suc.hyps(1)[OF this, of ?s4]
      obtain es where "trace (snd (fetch_loop w symbol limit retries delay (attempt + 1) ?s4))
          = trace ?s4 @ es" by blast
      moreover have "\<exists>es'. trace ?s4 = trace s @ es'"
        by (simp add: retry_state_def api_get_crypto_bars_def random_uniform_def emit_def Let_def)
      ultimately show ?thesis unfolding eq by auto
    qed
  qed
qed

lemma place_order_extends:
  "\<exists>es. trace (snd (place_order w rate symbol qty side order_type s)) = trace s @ es"
  by (simp add: place_order_def api_get_latest_trade_def api_submit_order_def emit_def Let_def
      split: sum.split)

lemma process_symbol_extends:
  "\<exists>es. trace (process_symbol w b symbol s) = trace s @ es"
proof -
  obtain fetched s1 where f: "get_historical_data w symbol 100 3 5 s = (fetched, s1)"
    by (cases "get_historical_data w symbol 100 3 5 s")
  from fetch_loop_extends[of w symbol 100 3 5 0 s] f
  obtain es where s1: "trace s1 = trace s @ es"
    by (auto simp: get_historical_data_def)
  show ?thesis
  proof (cases fetched)
    case (Inl e)
    with f s1 show ?thesis by (simp add: process_symbol_def trace_emit)
  next
    case (Inr r)
    show ?thesis
    proof (cases r)
      case None
      with Inr f s1 show ?thesis by (simp add: process_symbol_def trace_emit)
    next
      case (Some data)
      obtain signals data' logged where c:
        "calculate (short_window b) (long_window b) (Some data) = (signals, data', logged)"
        by (cases "calculate (short_window b) (long_window b) (Some data)")
      let ?s2 = "s1\<lparr>trace := trace s1 @ logged\<rparr>"
      have s2: "trace ?s2 = trace s @ (es @ logged)" using s1 by simp
      from place_order_extends[of w "fee_rate b" symbol 1 "''buy''" "''market''"
          "emit (Log INFO ''Buy signal detected'' []) ?s2"]
      obtain eb where eb: "trace (snd (place_order w (fee_rate b) symbol 1 ''buy'' ''market''
          (emit (Log INFO ''Buy signal detected'' []) ?s2)))
          = trace (emit (Log INFO ''Buy signal detected'' []) ?s2) @ eb" by blast
      from place_order_extends[of w "fee_rate b" symbol 1 "''sell''" "''market''"
          "emit (Log INFO ''Sell signal detected'' []) ?s2"]
      obtain el where el: "trace (snd (place_order w (fee_rate b) symbol 1 ''sell'' ''market''
          (emit (Log INFO ''Sell signal detected'' []) ?s2)))
          = trace (emit (Log INFO ''Sell signal detected'' []) ?s2) @ el" by blast
      show ?thesis
        using Inr Some f c s1 eb el
        by (cases signals) (auto simp add: process_symbol_def trace_emit Let_def)
    qed
  qed
qed

lemma gather_extends:
  "\<exists>es. trace (foldl (\<lambda>s' symbol. process_symbol w b symbol s') s xs) = trace s @ es"
proof (induction xs arbitrary: s)
  case Nil
  then show ?case by simp
next
  case (Cons x xs)
  from process_symbol_extends[of w b x s] obtain e1 where
    "trace (process_symbol w b x s) = trace s @ e1" by blast
  moreover from Cons.IH[of "process_symbol w b x s"] obtain e2 where
    "trace (foldl (\<lambda>s' symbol. process_symbol w b symbol s') (process_symbol w b x s) xs)
      = trace (process_symbol w b x s) @ e2" by blast
  ultimately show ?case by simp
qed

lemma loop_body_starts_with_clock:
  "\<exists>es. trace (snd (loop_body w b check_interval s)) = trace s @ GetClock # es"
proof (cases "get_clock_resp w (clock_calls s)")
  case (Inl r)
  then show ?thesis by (simp add: loop_body_def api_get_clock_def emit_def)
next
  case (Inr clk)
  let ?s1 = "snd (api_get_clock w s)"
  let ?s2 = "if \<not> is_open clk then
               emit (AsyncSleep (min check_interval (seconds (next_open clk - timestamp clk))))
                 (emit (Log INFO ''Market is closed.'' []) ?s1)
             else ?s1"
  have s1: "trace ?s1 = trace s @ [GetClock]" by (simp add: api_get_clock_def emit_def)
  then obtain e2 where s2: "trace ?s2 = trace s @ GetClock # e2"
    by (cases "is_open clk") (simp_all add: trace_emit)
  from gather_extends[of w b ?s2 "symbols b"] obtain e3 where
    "trace (gather_symbols w b ?s2) = trace ?s2 @ e3"
    by (auto simp: gather_symbols_def)
  with s2 have "trace (emit (AsyncSleep check_interval) (gather_symbols w b ?s2))
      = trace s @ GetClock # (e2 @ e3 @ [AsyncSleep check_interval])"
    by (simp add: trace_emit)
  moreover have "snd (loop_body w b check_interval s)
      = emit (AsyncSleep check_interval) (gather_symbols w b ?s2)"
    using Inr by (simp add: loop_body_def api_get_clock_def Let_def)
  ultimately show ?thesis by metis
qed

lemma run_iteration_starts_with_clock:
  "\<exists>es. trace (snd (run_iteration w b check_interval s)) = trace s @ GetClock # es"
proof -
  obtain outcome s1 where l: "loop_body w b check_interval s = (outcome, s1)"
    by (cases "loop_body w b check_interval s")
  with loop_body_starts_with_clock[of w b check_interval s]
  obtain es where "trace s1 = trace s @ GetClock # es" by auto
  with l show ?thesis
    by (auto simp add: run_iteration_def trace_emit split: sum.split raised.split)
qed

text \<open>
  C8. When an \<^verbatim>\<open>Exception\<close> leaves the body of the loop, the iteration logs it, sleeps
  300 seconds and ends with the loop still running: \<^verbatim>\<open>run\<close> goes on with the next
  iteration, which starts by asking the market clock.
\<close>

theorem run_recovers_from_exception:
  assumes "loop_body w b check_interval s = (Inl (Exc e), s1)"
  shows "let s2 = emit (AsyncSleep 300) (emit (Log ERROR ''Error in main loop'' []) s1)
         in run_iteration w b check_interval s = (Continue, s2)
          \<and> trace s2 = trace s1 @ [Log ERROR ''Error in main loop'' [], AsyncSleep 300]
          \<and> run_loop (Suc n) w b check_interval s = run_loop n w b check_interval s2
          \<and> (\<exists>es. trace (snd (run_iteration w b check_interval s2)) = trace s2 @ GetClock # es)"
  using assms run_iteration_starts_with_clock
  by (simp add: run_iteration_def trace_emit Let_def)

theorem run_recovers_from_exception_witness:
  "loop_body clock_error_world default_bot 900 initial_state
     = (Inl (Exc APIError), initial_state\<lparr>clock_calls := 1, trace := [GetClock]\<rparr>)
   \<and> run_iteration clock_error_world default_bot 900 initial_state
     = (Continue, initial_state\<lparr>clock_calls := 1,
          trace := [GetClock, Log ERROR ''Error in main loop'' [], AsyncSleep 300]\<rparr>)"
proof -
  have l: "loop_body clock_error_world default_bot 900 initial_state
     = (Inl (Exc APIError), initial_state\<lparr>clock_calls := 1, trace := [GetClock]\<rparr>)"
    by (simp add: loop_body_def api_get_clock_def emit_def clock_error_world_def initial_state_def)
  from run_recovers_from_exception[OF l, of 0] l
  show ?thesis by (simp add: Let_def emit_def initial_state_def)
qed

text \<open>
  C1. The property: in a cycle in which the clock reports the market closed, the loop
  sleeps \<open>min check_interval\<close> of the time to the next opening and returns to the clock
  check, with no data fetch and no order in that cycle. The code does not do this. With
  the clock reporting closed, one iteration sleeps and then, without asking the clock
  again, runs the task of every symbol: here the bars are fetched and a buy order is
  submitted while the market is closed. (\<^verbatim>\<open>run\<close> has no \<^verbatim>\<open>continue\<close> after the sleep of
  line 160.)
\<close>

theorem run_iteration_closed_market:
  "run_iteration closed_market_world signal_bot 900 initial_state =
     (Continue,
      \<lparr>clock_calls = 1, bars_calls = 1, trade_calls = 1, order_calls = 1, random_calls = 0,
       trace = [GetClock, Log INFO ''Market is closed.'' [], AsyncSleep 900,
                GetCryptoBars ''BTC/USD'',
                Log INFO ''Signal generated: BUY'' [],
                Log INFO ''Current price'' [Some 5],
                Log INFO ''Short SMA'' [Some 5],
                Log INFO ''Long SMA'' [Some 3],
                Log INFO ''Buy signal detected'' [],
                GetLatestTrade ''BTC/USD'',
                Log INFO ''Estimated fee'' [Some 0.25],
                SubmitOrder ''BTC/USD'' 1 ''buy'' ''market'' ''gtc'',
                Log INFO ''Order placed'' [Some 100],
                AsyncSleep 900]\<rparr>)"
proof -
  have c: "calculate 1 2 (Some sample_bars) =
     (Inr (True, False),
      Some (with_columns [Some 3, Some 1, Some 5] [None, Some 2, Some 3] sample_bars),
      [Log INFO ''Signal generated: BUY'' [],
       Log INFO ''Current price'' [Some 5],
       Log INFO ''Short SMA'' [Some 5],
       Log INFO ''Long SMA'' [Some 3]])"
    by (simp add: calculate_def calculate_with_def len_def getitem_def setitem_def rolling_mean_def
        trailing_mean_def window_mean_def cross_at_def iloc_def py_gt_def signal_report_def Let_def
        with_columns_def sample_bars_def upt_rec)
  show ?thesis
    by (simp add: run_iteration_def loop_body_def gather_symbols_def process_symbol_def
      fetch_sample c place_order_def estimated_fee_def
      api_get_clock_def api_get_crypto_bars_def api_get_latest_trade_def api_submit_order_def
      emit_def seconds_def
      closed_market_world_def calm_world_def signal_bot_def initial_state_def)
qed

text \<open>The same iteration for the bot as \<^verbatim>\<open>main.py\<close> starts it: both symbols are fetched.\<close>

lemma run_iteration_closed_market_default:
  "run_iteration closed_market_world default_bot 900 initial_state =
     (Continue,
      \<lparr>clock_calls = 1, bars_calls = 2, trade_calls = 0, order_calls = 0, random_calls = 0,
       trace = [GetClock, Log INFO ''Market is closed.'' [], AsyncSleep 900,
                GetCryptoBars ''BTC/USD'',
                Log WARNING ''Insufficient data for signal calculation.'' [],
                Log INFO ''No trading signals'' [],
                GetCryptoBars ''ETH/USD'',
                Log WARNING ''Insufficient data for signal calculation.'' [],
                Log INFO ''No trading signals'' [],
                AsyncSleep 900]\<rparr>)"
  by (simp add: run_iteration_def loop_body_def gather_symbols_def process_symbol_def
      fetch_sample calculate_sample_default
      api_get_clock_def api_get_crypto_bars_def emit_def seconds_def
      closed_market_world_def calm_world_def default_bot_def initial_state_def)

text \<open>
  The sleep itself is \<open>min check_interval\<close> of the seconds field of the time to the next
  opening, which drops whole days: one day and ten seconds ahead, the loop sleeps ten
  seconds.
\<close>

lemma seconds_drops_days: "seconds (86410 * 1000000) = 10"
  by (simp add: seconds_def)

end
